theory Spec2Isabelle
  imports Complex_Main
begin

section \<open>Python values used by the sidecar\<close>

text \<open>
  A Python \<open>str\<close> is a sequence of code points. The model uses \<^typ>\<open>string\<close> and so
  covers the code points below 256; \<open>len\<close> is \<^const>\<open>length\<close>. The two definitions below
  are \<open>str.isspace\<close> and \<open>str.lower\<close> of one character in that range.
\<close>

definition isspace :: "char \<Rightarrow> bool" where
  "isspace c =
     (let n = (of_char c :: nat)
      in (9 \<le> n \<and> n \<le> 13) \<or> (28 \<le> n \<and> n \<le> 32) \<or> n = 133 \<or> n = 160)"

definition lower_char :: "char \<Rightarrow> char" where
  "lower_char c =
     (let n = (of_char c :: nat)
      in if (65 \<le> n \<and> n \<le> 90) \<or> (192 \<le> n \<and> n \<le> 222 \<and> n \<noteq> 215)
         then char_of (n + 32) else c)"

text \<open>\<open>s.strip()\<close>, \<open>s.lower()\<close> and \<open>s.startswith(p)\<close>.\<close>

definition strip :: "string \<Rightarrow> string" where
  "strip s = rev (dropWhile isspace (rev (dropWhile isspace s)))"

definition lower :: "string \<Rightarrow> string" where
  "lower s = map lower_char s"

definition startswith :: "string \<Rightarrow> string \<Rightarrow> bool" where
  "startswith s p = (take (length p) s = p)"

text \<open>\<open>str(n)\<close> of a Python \<open>int\<close>.\<close>

fun digits :: "nat \<Rightarrow> string" where
  "digits n =
     (if n < 10 then [char_of (48 + n)]
      else digits (n div 10) @ [char_of (48 + n mod 10)])"

declare digits.simps [simp del]

definition str_int :: "int \<Rightarrow> string" where
  "str_int i = (if i < 0 then CHR ''-'' # digits (nat (- i)) else digits (nat i))"

text \<open>
  A Python \<open>float\<close>: a finite value (both zeros are \<open>Finite 0\<close>), an infinity or a NaN.
  \<open>float_truthy\<close> is \<open>bool(x)\<close> and \<open>float_gt0\<close> is \<open>x > 0\<close>.
\<close>

datatype pyfloat = Finite real | PosInf | NegInf | NaN

fun float_truthy :: "pyfloat \<Rightarrow> bool" where
  "float_truthy (Finite r) = (r \<noteq> 0)"
| "float_truthy _ = True"

fun float_gt0 :: "pyfloat \<Rightarrow> bool" where
  "float_gt0 (Finite r) = (0 < r)"
| "float_gt0 PosInf = True"
| "float_gt0 _ = False"

text \<open>An opaque Python object (a tensor, a batch of inputs, a byte buffer), by identity.\<close>

datatype obj = Obj nat

text \<open>
  The exceptions the handler tells apart: a \<open>ValueError\<close> (with \<open>str(error)\<close>), an
  \<open>HTTPException\<close> (status code and detail), any other subclass of \<open>Exception\<close>, and an
  exception that is not an \<open>Exception\<close> at all (\<open>KeyboardInterrupt\<close>, a cancellation).
\<close>

datatype exn =
    ValueError string
  | HTTPException nat string
  | OtherException string
  | BaseException string

section \<open>Configuration and process-wide state\<close>

text \<open>The module-level constants of lines 44--48, read once from the environment.\<close>

record config =
  MODEL_ID :: string
  TEXT_MAX_CHARS :: int
  DEFAULT_CFG_SCALE :: pyfloat
  DEFAULT_MAX_TOKENS :: int
  DEFAULT_VOICE :: "string option"

text \<open>The globals of lines 50--52.\<close>

record state =
  MODEL :: "obj option"
  PROCESSOR :: "obj option"
  DEVICE :: string

text \<open>
  The request body, class \<open>TtsRequest\<close>. The schema rejects a \<open>text\<close> of length 0
  before the handler runs; a text of white space only reaches the handler.
\<close>

record TtsRequest =
  text' :: string
  voice :: "string option"
  cfgScale :: "pyfloat option"
  maxTokens :: "int option"

section \<open>Device resolution and loading\<close>

text \<open>
  \<open>resolve_device\<close> (lines 63--69). Its two inputs are the value of
  \<open>os.getenv("KUGELAUDIO_DEVICE")\<close> and the answer of \<open>torch.cuda.is_available()\<close>.
\<close>

definition resolve_device :: "string option \<Rightarrow> bool \<Rightarrow> string" where
  "resolve_device env cuda =
     (let configured = lower (strip (case env of None \<Rightarrow> '''' | Some v \<Rightarrow> v))
      in if configured \<noteq> '''' then
           (if startswith configured ''cuda'' \<and> \<not> cuda then ''cpu''
            else configured)
         else (if cuda then ''cuda'' else ''cpu''))"

datatype dtype = bfloat16 | float32

text \<open>
  What lies outside the process when \<open>ensure_loaded\<close> runs: the device override, the
  hardware, and the two \<open>from_pretrained\<close> loaders, each of which returns an object or
  raises. The model loader stands for lines 83--88 (load with the dtype, move to the
  device, \<open>eval\<close>, \<open>strip_encoders\<close>).
\<close>

record loader =
  KUGELAUDIO_DEVICE :: "string option"
  cuda_is_available :: bool
  model_from_pretrained :: "string \<Rightarrow> dtype \<Rightarrow> string \<Rightarrow> exn + obj"
  processor_from_pretrained :: "string \<Rightarrow> exn + obj"

text \<open>
  \<open>ensure_loaded\<close> (lines 72--93). The result is the new globals and the exception
  raised, if any: \<open>DEVICE\<close> is assigned on line 80, before anything is loaded, so it
  stays assigned when a loader raises.
\<close>

definition ensure_loaded :: "config \<Rightarrow> loader \<Rightarrow> state \<Rightarrow> state \<times> exn option" where
  "ensure_loaded cfg ld s =
     (if MODEL s \<noteq> None \<and> PROCESSOR s \<noteq> None then (s, None)
      else
        let dev = resolve_device (KUGELAUDIO_DEVICE ld) (cuda_is_available ld);
            s1 = s\<lparr>DEVICE := dev\<rparr>;
            dt = (if startswith dev ''cuda'' then bfloat16 else float32)
        in case model_from_pretrained ld (MODEL_ID cfg) dt dev of
             Inl e \<Rightarrow> (s1, Some e)
           | Inr m \<Rightarrow>
               (case processor_from_pretrained ld (MODEL_ID cfg) of
                  Inl e \<Rightarrow> (s1, Some e)
                | Inr p \<Rightarrow>
                    (s1\<lparr>MODEL := Some m, PROCESSOR := Some p\<rparr>, None)))"

section \<open>Health\<close>

record health =
  ok :: bool
  model :: string
  device :: string

text \<open>\<open>healthz\<close> (lines 109--115): the globals after the call, and the body returned.\<close>

definition healthz :: "config \<Rightarrow> state \<Rightarrow> state \<times> health" where
  "healthz cfg s =
     (s, \<lparr>ok = (MODEL s \<noteq> None \<and> PROCESSOR s \<noteq> None),
          model = MODEL_ID cfg,
          device = DEVICE s\<rparr>)"

section \<open>The synthesize handler\<close>

text \<open>
  What the loaded processor, the loaded model and the audio library do during one call
  of the handler. Each returns a value or raises:
  \<^item> \<open>processor_call text voice\<close> is \<open>PROCESSOR(text=..., voice=..., return_tensors="pt")\<close>;
  \<^item> \<open>to_device inputs device\<close> is the dictionary comprehension of lines 140--143;
  \<^item> \<open>model_generate inputs cfg_scale max_new_tokens\<close> is \<open>MODEL.generate\<close> under
    \<open>torch.no_grad()\<close>;
  \<^item> \<open>normalize outputs\<close> is lines 152--158: the first speech output as a squeezed
    float32 array;
  \<^item> \<open>sampling_rate\<close> is the attribute read of line 159, \<open>None\<close> when the audio
    processor has no such attribute;
  \<^item> \<open>sf_write audio sample_rate\<close> is lines 161--162 followed by \<open>output.getvalue()\<close>.
\<close>

record externals =
  processor_call :: "string \<Rightarrow> string option \<Rightarrow> exn + obj"
  to_device :: "obj \<Rightarrow> string \<Rightarrow> exn + obj"
  model_generate :: "obj \<Rightarrow> pyfloat \<Rightarrow> int \<Rightarrow> exn + obj"
  normalize :: "obj \<Rightarrow> exn + obj"
  sampling_rate :: "exn + int option"
  sf_write :: "obj \<Rightarrow> int \<Rightarrow> exn + obj"

datatype response = Response obj string

text \<open>Sequencing of two statements, the first of which may raise.\<close>

definition and_then :: "exn + 'a \<Rightarrow> ('a \<Rightarrow> exn + 'b) \<Rightarrow> exn + 'b" where
  "and_then r f = (case r of Inl e \<Rightarrow> Inl e | Inr v \<Rightarrow> f v)"

text \<open>Lines 129--131: the voice, the cfg scale and the token bound handed to the engine.\<close>

definition resolve_voice :: "config \<Rightarrow> TtsRequest \<Rightarrow> string option" where
  "resolve_voice cfg payload =
     (let v = strip (case voice payload of None \<Rightarrow> '''' | Some w \<Rightarrow> w)
      in if v \<noteq> '''' then Some v else DEFAULT_VOICE cfg)"

definition resolve_cfg_scale :: "config \<Rightarrow> TtsRequest \<Rightarrow> pyfloat" where
  "resolve_cfg_scale cfg payload =
     (case cfgScale payload of
        None \<Rightarrow> DEFAULT_CFG_SCALE cfg
      | Some c \<Rightarrow> if float_truthy c \<and> float_gt0 c then c else DEFAULT_CFG_SCALE cfg)"

definition resolve_max_tokens :: "config \<Rightarrow> TtsRequest \<Rightarrow> int" where
  "resolve_max_tokens cfg payload =
     (case maxTokens payload of
        None \<Rightarrow> DEFAULT_MAX_TOKENS cfg
      | Some n \<Rightarrow> if n \<noteq> 0 \<and> 0 < n then n else DEFAULT_MAX_TOKENS cfg)"

text \<open>
  Lines 120--131, everything before the \<open>try\<close>: the guard on the globals, the two
  checks on the trimmed text, and the resolved parameters. An exception raised here
  leaves the handler as it is.
\<close>

definition admit ::
  "config \<Rightarrow> state \<Rightarrow> TtsRequest \<Rightarrow> exn + (string \<times> string option \<times> pyfloat \<times> int)" where
  "admit cfg s payload =
     (if MODEL s = None \<or> PROCESSOR s = None
      then Inl (HTTPException 503 ''Model is not loaded'')
      else
        let txt = strip (text' payload)
        in if txt = '''' then Inl (HTTPException 400 ''text must not be empty'')
           else if int (length txt) > TEXT_MAX_CHARS cfg
           then Inl (HTTPException 400
                  (''text exceeds max length ('' @ str_int (TEXT_MAX_CHARS cfg) @ '')''))
           else Inr (txt, resolve_voice cfg payload, resolve_cfg_scale cfg payload,
                     resolve_max_tokens cfg payload))"

text \<open>Lines 135--143, the first half of the body of \<open>async with GENERATE_LOCK\<close>.\<close>

definition encode_inputs ::
  "externals \<Rightarrow> state \<Rightarrow> string \<Rightarrow> string option \<Rightarrow> exn + obj" where
  "encode_inputs ext s txt v =
     and_then (processor_call ext txt v) (\<lambda>inputs. to_device ext inputs (DEVICE s))"

text \<open>Lines 152--163, after the lock block: the response, or the exception raised.\<close>

definition sample_rate :: "externals \<Rightarrow> exn + int" where
  "sample_rate ext =
     and_then (sampling_rate ext) (\<lambda>r. Inr (case r of None \<Rightarrow> 24000 | Some n \<Rightarrow> n))"

definition audio_response :: "externals \<Rightarrow> obj \<Rightarrow> exn + response" where
  "audio_response ext outputs =
     and_then (normalize ext outputs) (\<lambda>audio.
     and_then (sample_rate ext) (\<lambda>rate.
     and_then (sf_write ext audio rate) (\<lambda>content.
       Inr (Response content ''audio/wav''))))"

text \<open>
  The \<open>except\<close> clauses of lines 164--169, in their order: what leaves the handler when
  \<open>e\<close> was raised inside the \<open>try\<close>. An exception that is not an \<open>Exception\<close> matches none
  of them.
\<close>

fun reraise :: "exn \<Rightarrow> exn" where
  "reraise (ValueError msg) = HTTPException 400 msg"
| "reraise (HTTPException code detail) = HTTPException code detail"
| "reraise (OtherException msg) = HTTPException 500 (''TTS generation failed: '' @ msg)"
| "reraise (BaseException msg) = BaseException msg"

definition guarded :: "exn + response \<Rightarrow> exn + response" where
  "guarded r = (case r of Inl e \<Rightarrow> Inl (reraise e) | Inr v \<Rightarrow> Inr v)"

text \<open>
  The body of the \<open>try\<close> (lines 134--163): the lock block, then the audio response.
\<close>

definition try_body ::
  "externals \<Rightarrow> state \<Rightarrow> string \<Rightarrow> string option \<Rightarrow> pyfloat \<Rightarrow> int \<Rightarrow> exn + response" where
  "try_body ext s txt v cfg_scale max_tokens =
     and_then (encode_inputs ext s txt v) (\<lambda>inputs.
     and_then (model_generate ext inputs cfg_scale max_tokens) (\<lambda>outputs.
     audio_response ext outputs))"

text \<open>
  \<open>tts\<close> (lines 118--169) for a request that is not kept waiting at the lock: the
  response returned, or the exception raised.
\<close>

definition tts :: "config \<Rightarrow> state \<Rightarrow> externals \<Rightarrow> TtsRequest \<Rightarrow> exn + response" where
  "tts cfg s ext payload =
     (case admit cfg s payload of
        Inl e \<Rightarrow> Inl e
      | Inr (txt, v, cfg_scale, max_tokens) \<Rightarrow>
          guarded (try_body ext s txt v cfg_scale max_tokens))"

section \<open>Concurrent requests and the lock\<close>

text \<open>
  Where one call of the handler stands. \<open>Entry\<close>: not started. \<open>AwaitGate\<close>: at
  \<open>async with GENERATE_LOCK\<close> (line 134), the lock not yet taken. \<open>Encoding\<close> (lines
  135--143) and \<open>Generating\<close> (lines 145--150): inside the block, the lock held.
  \<open>Releasing\<close>: leaving the block, normally or by an exception, the lock still held.
  \<open>Normalizing\<close> (lines 152--158), \<open>ReadingRate\<close> (line 159) and \<open>Writing\<close> (lines
  161--163): after the block. \<open>Finished\<close>: the handler has returned or raised.
\<close>

datatype pc =
    Entry
  | AwaitGate string "string option" pyfloat int
  | Encoding string "string option" pyfloat int
  | Generating obj pyfloat int
  | Releasing "exn + obj"
  | Normalizing obj
  | ReadingRate obj
  | Writing obj int
  | Finished "exn + response"

text \<open>
  One request in flight: its body, what the engine does for it, where it stands, and how
  often it has taken and given back the lock.
\<close>

record task =
  request :: TtsRequest
  engine :: externals
  pc :: pc
  acquired :: nat
  released :: nat

text \<open>
  The next stage of one call. \<open>g\<close> is \<open>GENERATE_LOCK.locked()\<close>. A call at the lock
  takes it when it is free and stays where it is otherwise; the stage that leaves the
  block releases it, whatever the block did.
\<close>

fun advance :: "config \<Rightarrow> state \<Rightarrow> bool \<times> task \<Rightarrow> bool \<times> task" where
  "advance cfg s (g, t) =
     (case pc t of
        Entry \<Rightarrow>
          (g, t\<lparr>pc := (case admit cfg s (request t) of
                          Inl e \<Rightarrow> Finished (Inl e)
                        | Inr (txt, v, c, m) \<Rightarrow> AwaitGate txt v c m)\<rparr>)
      | AwaitGate txt v c m \<Rightarrow>
          (if g then (g, t)
           else (True, t\<lparr>pc := Encoding txt v c m, acquired := acquired t + 1\<rparr>))
      | Encoding txt v c m \<Rightarrow>
          (g, t\<lparr>pc := (case encode_inputs (engine t) s txt v of
                          Inl e \<Rightarrow> Releasing (Inl e)
                        | Inr inputs \<Rightarrow> Generating inputs c m)\<rparr>)
      | Generating inputs c m \<Rightarrow>
          (g, t\<lparr>pc := Releasing (model_generate (engine t) inputs c m)\<rparr>)
      | Releasing r \<Rightarrow>
          (False, t\<lparr>pc := (case r of
                              Inl e \<Rightarrow> Finished (Inl (reraise e))
                            | Inr outputs \<Rightarrow> Normalizing outputs),
                     released := released t + 1\<rparr>)
      | Normalizing outputs \<Rightarrow>
          (g, t\<lparr>pc := (case normalize (engine t) outputs of
                          Inl e \<Rightarrow> Finished (Inl (reraise e))
                        | Inr audio \<Rightarrow> ReadingRate audio)\<rparr>)
      | ReadingRate audio \<Rightarrow>
          (g, t\<lparr>pc := (case sample_rate (engine t) of
                          Inl e \<Rightarrow> Finished (Inl (reraise e))
                        | Inr rate \<Rightarrow> Writing audio rate)\<rparr>)
      | Writing audio rate \<Rightarrow>
          (g, t\<lparr>pc := (case sf_write (engine t) audio rate of
                          Inl e \<Rightarrow> Finished (Inl (reraise e))
                        | Inr content \<Rightarrow> Finished (Inr (Response content ''audio/wav'')))\<rparr>)
      | Finished r \<Rightarrow> (g, t))"

text \<open>
  The process: the lock, the calls in flight, and the call the event loop is running
  (\<open>None\<close> between two calls).
\<close>

record system =
  gate :: bool
  tasks :: "task list"
  running :: "nat option"

definition new_task :: "TtsRequest \<times> externals \<Rightarrow> task" where
  "new_task r = \<lparr>request = fst r, engine = snd r, pc = Entry, acquired = 0, released = 0\<rparr>"

definition init :: "(TtsRequest \<times> externals) list \<Rightarrow> system" where
  "init reqs = \<lparr>gate = False, tasks = map new_task reqs, running = None\<rparr>"

text \<open>Call \<open>i\<close> takes its next stage.\<close>

definition step :: "config \<Rightarrow> state \<Rightarrow> nat \<Rightarrow> system \<Rightarrow> system" where
  "step cfg s i sys =
     (if i < length (tasks sys)
      then let (g, t) = advance cfg s (gate sys, tasks sys ! i)
           in sys\<lparr>gate := g, tasks := (tasks sys)[i := t]\<rparr>
      else sys)"

text \<open>
  Any scheduler: a schedule names, stage by stage, the call that moves next, and any
  call may be named at any time.
\<close>

fun run :: "config \<Rightarrow> state \<Rightarrow> nat list \<Rightarrow> system \<Rightarrow> system" where
  "run cfg s [] sys = sys"
| "run cfg s (i # sched) sys = run cfg s sched (step cfg s i sys)"

text \<open>
  The event loop. A coroutine gives up control only where it awaits, and the handler
  awaits only at line 134: a call that has started keeps the loop until it has finished
  or finds the lock taken. A schedule entry that names another call while one is
  running has no effect.
\<close>

definition yields :: "bool \<Rightarrow> pc \<Rightarrow> bool" where
  "yields g p = (case p of Finished r \<Rightarrow> True | AwaitGate txt v c m \<Rightarrow> g | _ \<Rightarrow> False)"

definition loop_step :: "config \<Rightarrow> state \<Rightarrow> nat \<Rightarrow> system \<Rightarrow> system" where
  "loop_step cfg s i sys =
     (if i < length (tasks sys) \<and> (running sys = None \<or> running sys = Some i)
      then let sys' = step cfg s i sys
           in sys'\<lparr>running := (if yields (gate sys') (pc (tasks sys' ! i)) then None
                                else Some i)\<rparr>
      else sys)"

fun event_loop :: "config \<Rightarrow> state \<Rightarrow> nat list \<Rightarrow> system \<Rightarrow> system" where
  "event_loop cfg s [] sys = sys"
| "event_loop cfg s (i # sched) sys = event_loop cfg s sched (loop_step cfg s i sys)"

text \<open>The stages the claims speak of.\<close>

definition holding :: "pc \<Rightarrow> bool" where
  "holding p =
     (case p of Encoding txt v c m \<Rightarrow> True | Generating i c m \<Rightarrow> True
      | Releasing r \<Rightarrow> True | _ \<Rightarrow> False)"

definition in_engine :: "pc \<Rightarrow> bool" where
  "in_engine p = (case p of Generating i c m \<Rightarrow> True | _ \<Rightarrow> False)"

definition in_steps_4_8 :: "pc \<Rightarrow> bool" where
  "in_steps_4_8 p =
     (case p of Encoding txt v c m \<Rightarrow> True | Generating i c m \<Rightarrow> True
      | Releasing r \<Rightarrow> True | Normalizing out \<Rightarrow> True | ReadingRate a \<Rightarrow> True
      | Writing a r \<Rightarrow> True | _ \<Rightarrow> False)"

section \<open>Example values\<close>

definition example_config :: config where
  "example_config =
     \<lparr>MODEL_ID = ''kugelaudio/kugelaudio-0-open'', TEXT_MAX_CHARS = 4000,
      DEFAULT_CFG_SCALE = Finite 3, DEFAULT_MAX_TOKENS = 2048, DEFAULT_VOICE = None\<rparr>"

definition loaded_state :: state where
  "loaded_state = \<lparr>MODEL = Some (Obj 1), PROCESSOR = Some (Obj 2), DEVICE = ''cpu''\<rparr>"

definition unloaded_state :: state where
  "unloaded_state = \<lparr>MODEL = None, PROCESSOR = None, DEVICE = ''cpu''\<rparr>"

definition example_loader :: loader where
  "example_loader =
     \<lparr>KUGELAUDIO_DEVICE = Some '' CUDA:0 '', cuda_is_available = False,
      model_from_pretrained = (\<lambda>name dt dev. Inr (Obj 1)),
      processor_from_pretrained = (\<lambda>name. Inr (Obj 2))\<rparr>"

section \<open>Device resolution\<close>

lemma strip_Nil [simp]: "strip [] = []"
  by (simp add: strip_def)

lemma lower_Nil [simp]: "lower [] = []"
  by (simp add: lower_def)

text \<open>
  Claim C7. An override that, trimmed and lowercased, starts with \<open>cuda\<close> while CUDA is
  not available resolves to \<open>cpu\<close>. With no override (the variable unset, or empty after
  trimming) the device is \<open>cuda\<close> exactly when CUDA is available, and \<open>cpu\<close> otherwise.
\<close>

theorem device_resolution_policy:
  "(startswith (lower (strip v)) ''cuda'' \<longrightarrow> resolve_device (Some v) False = ''cpu'')
   \<and> resolve_device None cuda = (if cuda then ''cuda'' else ''cpu'')
   \<and> (lower (strip v) = '''' \<longrightarrow>
        resolve_device (Some v) cuda = (if cuda then ''cuda'' else ''cpu''))"
  by (auto simp: resolve_device_def Let_def startswith_def)

theorem device_resolution_policy_witness:
  "startswith (lower (strip '' CUDA:0 '')) ''cuda''
   \<and> resolve_device (Some '' CUDA:0 '') False = ''cpu''
   \<and> resolve_device None True = ''cuda''"
proof -
  have h: "startswith (lower (strip '' CUDA:0 '')) ''cuda''"
    by code_simp
  show ?thesis
    using h device_resolution_policy [of "'' CUDA:0 ''" True] by simp
qed

text \<open>
  Claim C10. An override that, trimmed and lowercased, is not empty and does not start
  with \<open>cuda\<close> is returned in that trimmed, lowercased form whatever the hardware
  answers; the result differs from the trimmed, lowercased override only when that
  starts with \<open>cuda\<close> and CUDA is not available, and is then \<open>cpu\<close>.
\<close>

theorem override_without_cuda_prefix:
  "(lower (strip v) \<noteq> '''' \<and> \<not> startswith (lower (strip v)) ''cuda''
      \<longrightarrow> resolve_device (Some v) cuda = lower (strip v))
   \<and> (lower (strip v) \<noteq> '''' \<and> resolve_device (Some v) cuda \<noteq> lower (strip v)
      \<longrightarrow> startswith (lower (strip v)) ''cuda'' \<and> \<not> cuda
          \<and> resolve_device (Some v) cuda = ''cpu'')"
  by (auto simp: resolve_device_def Let_def)

theorem override_without_cuda_prefix_witness:
  "lower (strip '' MPS '') = ''mps''
   \<and> \<not> startswith (lower (strip '' MPS '')) ''cuda''
   \<and> resolve_device (Some '' MPS '') False = ''mps''
   \<and> resolve_device (Some '' MPS '') True = ''mps''"
proof -
  have h: "lower (strip '' MPS '') = ''mps''"
    by code_simp
  have n: "\<not> startswith (lower (strip '' MPS '')) ''cuda''"
    by code_simp
  show ?thesis
    using h n override_without_cuda_prefix [of "'' MPS ''" False]
      override_without_cuda_prefix [of "'' MPS ''" True]
    by simp
qed

section \<open>Loading and health\<close>

text \<open>
  Claim C8. When the model and the processor are both loaded, \<open>ensure_loaded\<close> returns
  without raising and leaves the globals as they are, whatever the environment and the
  loaders would do; and a call that has succeeded makes every later call such a no-op.
\<close>

theorem ensure_loaded_idempotent:
  "(MODEL s \<noteq> None \<and> PROCESSOR s \<noteq> None \<longrightarrow> ensure_loaded cfg ld s = (s, None))
   \<and> (ensure_loaded cfg ld s = (s', None) \<longrightarrow> ensure_loaded cfg ld' s' = (s', None))"
  by (auto simp: ensure_loaded_def Let_def split: sum.splits if_splits)

theorem ensure_loaded_idempotent_witness:
  "MODEL loaded_state \<noteq> None \<and> PROCESSOR loaded_state \<noteq> None
   \<and> ensure_loaded example_config example_loader loaded_state = (loaded_state, None)
   \<and> ensure_loaded example_config example_loader unloaded_state = (loaded_state, None)"
proof -
  have h: "MODEL loaded_state \<noteq> None \<and> PROCESSOR loaded_state \<noteq> None"
    by (simp add: loaded_state_def)
  have d: "resolve_device (Some '' CUDA:0 '') False = ''cpu''"
    by code_simp
  have u: "ensure_loaded example_config example_loader unloaded_state = (loaded_state, None)"
    by (simp add: ensure_loaded_def example_loader_def unloaded_state_def loaded_state_def d)
  show ?thesis
    using h u ensure_loaded_idempotent [of loaded_state example_config example_loader]
    by simp
qed

text \<open>
  Claim C9. \<open>healthz\<close> leaves the globals as they are and reports: \<open>ok\<close> exactly when the
  model and the processor are both loaded, the configured model identifier, and the
  current device.
\<close>

theorem healthz_reports_state:
  "fst (healthz cfg s) = s
   \<and> ok (snd (healthz cfg s)) = (MODEL s \<noteq> None \<and> PROCESSOR s \<noteq> None)
   \<and> model (snd (healthz cfg s)) = MODEL_ID cfg
   \<and> device (snd (healthz cfg s)) = DEVICE s"
  by (simp add: healthz_def)

theorem healthz_reports_state_witness:
  "fst (healthz example_config unloaded_state) = unloaded_state
   \<and> \<not> ok (snd (healthz example_config unloaded_state))
   \<and> ok (snd (healthz example_config loaded_state))
   \<and> device (snd (healthz example_config loaded_state)) = ''cpu''"
  using healthz_reports_state [of example_config unloaded_state]
    healthz_reports_state [of example_config loaded_state]
  by (simp add: unloaded_state_def loaded_state_def)

end
